theory Spec2Isabelle
  imports Complex_Main "HOL-Library.Word"
begin

section \<open>Data model of SceneManager.cpp\<close>

text \<open>
  A C++ \<open>float\<close> is carried as the real number it stands for. Every function below
  except \<open>SetTransformations\<close> only copies floats, which is exact. The arithmetic of
  \<open>SetTransformations\<close> is written over the reals and float rounding is not modelled:
  see the remark at its definition for the calls on which this is the code's result.
  A \<open>glm::vecN\<close> is a tuple of its components in order; a \<open>glm::mat4\<close> is the tuple of
  its four columns, as glm stores it (\<open>m[c]\<close> is column \<open>c\<close>).
\<close>

type_synonym vec2 = "real \<times> real"
type_synonym vec3 = "real \<times> real \<times> real"
type_synonym vec4 = "real \<times> real \<times> real \<times> real"
type_synonym mat4 = "vec4 \<times> vec4 \<times> vec4 \<times> vec4"

text \<open>
  The structs \<open>TEXTURE_INFO\<close> and \<open>OBJECT_MATERIAL\<close> are declared in SceneManager.h;
  their fields are the ones SceneManager.cpp reads and writes. Both structs call their
  string key \<open>tag\<close>; the material's is \<open>material_tag\<close> here.
\<close>

record TEXTURE_INFO =
  ID :: nat
  tag :: string

record OBJECT_MATERIAL =
  ambientColor :: vec3
  ambientStrength :: real
  diffuseColor :: vec3
  specularColor :: vec3
  shininess :: real
  material_tag :: string

text \<open>The decoded image \<open>stbi_load\<close> hands back: the pixel bytes and the three out-parameters.\<close>

record stb_image =
  pixels :: "8 word list"
  width :: int
  height :: int
  colorChannels :: int

subsection \<open>The collaborators: shader interface, mesh library, graphics API, console\<close>

text \<open>
  Every call SceneManager.cpp makes on a collaborator is an event; the events a run
  issues are kept in order, oldest first.
\<close>

datatype mesh_shape = PlaneMesh | CylinderMesh bool bool bool | TorusMesh | BoxMesh | SphereMesh

datatype gl_format = GL_RGB | GL_RGBA

datatype event =
    setMat4Value string mat4
  | setIntValue string int
  | setSampler2DValue string int
  | setFloatValue string real
  | setVec2Value string vec2
  | setVec3Value string vec3
  | setVec4Value string vec4
  | DrawMesh mesh_shape
  | stbi_set_flip_vertically_on_load bool
  | stbi_image_free
  | glGenTextures nat
  | glBindTexture nat
  | glTexParameteri_WRAP_S_REPEAT
  | glTexParameteri_WRAP_T_REPEAT
  | glTexParameteri_MIN_FILTER_LINEAR
  | glTexParameteri_MAG_FILTER_LINEAR
  | glTexImage2D gl_format int int "8 word list"
  | glGenerateMipmap
  | glDeleteTextures nat
  | cout_loaded string int int int
  | cout_not_implemented int
  | cout_could_not_load string

datatype uniform_value =
    UInt int
  | UFloat real
  | UVec2 vec2
  | UVec3 vec3
  | UVec4 vec4
  | UMat4 mat4

text \<open>
  Modelled from the spec: the class ShaderManager (ShaderManager.h/.cpp) is not among the
  sources. The spec describes it as "typed uniform setters (setMat4, setVec2/3/4,
  setFloat, setInt/Bool, setSampler2D) addressed by name", "a string-keyed
  uniform-setting API": the shader's state is the value last written under each name.
\<close>

record ShaderManager =
  uniforms :: "string \<rightharpoonup> uniform_value"

definition set_uniform :: "string \<Rightarrow> uniform_value \<Rightarrow> ShaderManager \<Rightarrow> ShaderManager" where
  "set_uniform name v sh = sh\<lparr>uniforms := (uniforms sh)(name \<mapsto> v)\<rparr>"

fun shader_effect :: "event \<Rightarrow> ShaderManager \<Rightarrow> ShaderManager" where
  "shader_effect (setMat4Value name m) sh = set_uniform name (UMat4 m) sh"
| "shader_effect (setIntValue name i) sh = set_uniform name (UInt i) sh"
| "shader_effect (setSampler2DValue name i) sh = set_uniform name (UInt i) sh"
| "shader_effect (setFloatValue name x) sh = set_uniform name (UFloat x) sh"
| "shader_effect (setVec2Value name v) sh = set_uniform name (UVec2 v) sh"
| "shader_effect (setVec3Value name v) sh = set_uniform name (UVec3 v) sh"
| "shader_effect (setVec4Value name v) sh = set_uniform name (UVec4 v) sh"
| "shader_effect _ sh = sh"

text \<open>
  The state a SceneManager method runs in: the members of the object
  (\<open>m_pShaderManager\<close> is \<open>None\<close> for the null pointer and otherwise holds the shader
  object it points to; \<open>m_textureIDs\<close> is the fixed-size array, its length the array's
  declared size; \<open>m_loadedTextures\<close> is the \<open>int\<close> counter), then the texture names
  alive in the graphics context and the events issued so far.
\<close>

record SceneManager =
  m_pShaderManager :: "ShaderManager option"
  m_textureIDs :: "TEXTURE_INFO list"
  m_loadedTextures :: int
  m_objectMaterials :: "OBJECT_MATERIAL list"
  gl_textures :: "nat list"
  trace :: "event list"

datatype error = NullPointerDereference | ArrayIndexOutOfBounds

text \<open>
  \<open>m_pShaderManager->f(...)\<close>: the call dereferences the pointer, so on the null
  pointer it is an error; otherwise the shader object takes the write and the call is
  recorded. \<open>then_do\<close> sequences two statements: an error ends the run.
\<close>

definition call_shader :: "SceneManager \<Rightarrow> event \<Rightarrow> error + SceneManager" where
  "call_shader sm e =
     (case m_pShaderManager sm of
        None \<Rightarrow> Inl NullPointerDereference
      | Some sh \<Rightarrow>
          Inr (sm\<lparr>m_pShaderManager := Some (shader_effect e sh), trace := trace sm @ [e]\<rparr>))"

definition then_do :: "error + 'a \<Rightarrow> ('a \<Rightarrow> error + 'b) \<Rightarrow> error + 'b" where
  "then_do r f = (case r of Inl e \<Rightarrow> Inl e | Inr x \<Rightarrow> f x)"

definition emit :: "event \<Rightarrow> SceneManager \<Rightarrow> SceneManager" where
  "emit e sm = sm\<lparr>trace := trace sm @ [e]\<rparr>"

section \<open>Material registry\<close>

text \<open>
  \<open>FindMaterial\<close>, lines 214-241. The out-parameter \<open>material\<close> is passed in and
  returned beside the \<open>bool\<close>. \<open>std::string::compare(tag) == 0\<close> is string equality.
  The loop counter is an \<open>int\<close> that runs from 0 to at most the vector's size.
\<close>

function FindMaterial_loop ::
  "OBJECT_MATERIAL list \<Rightarrow> string \<Rightarrow> nat \<Rightarrow> bool \<Rightarrow> OBJECT_MATERIAL \<Rightarrow> OBJECT_MATERIAL" where
  "FindMaterial_loop ms t index bFound material =
     (if index < length ms \<and> bFound = False then
        (if material_tag (ms ! index) = t then
           FindMaterial_loop ms t index True
             (material\<lparr>ambientColor := ambientColor (ms ! index),
                       ambientStrength := ambientStrength (ms ! index),
                       diffuseColor := diffuseColor (ms ! index),
                       specularColor := specularColor (ms ! index),
                       shininess := shininess (ms ! index)\<rparr>)
         else FindMaterial_loop ms t (index + 1) bFound material)
      else material)"
  by pat_completeness auto
termination
  by (relation "measure (\<lambda>(ms, t, index, bFound, material).
        if bFound then 0 else 1 + (length ms - index))") auto

declare FindMaterial_loop.simps [simp del]

definition FindMaterial ::
  "SceneManager \<Rightarrow> string \<Rightarrow> OBJECT_MATERIAL \<Rightarrow> bool \<times> OBJECT_MATERIAL" where
  "FindMaterial sm t material =
     (if length (m_objectMaterials sm) = 0 then (False, material)
      else (True, FindMaterial_loop (m_objectMaterials sm) t 0 False material))"

section \<open>Texture registry\<close>

text \<open>
  An access \<open>a[i]\<close> to a C++ array: outside the array it is undefined behaviour, which
  the model reports as an error.
\<close>

definition array_at :: "'a list \<Rightarrow> int \<Rightarrow> error + 'a" where
  "array_at xs i =
     (if 0 \<le> i \<and> i < int (length xs) then Inr (xs ! nat i) else Inl ArrayIndexOutOfBounds)"

text \<open>
  \<open>glGenTextures(1, &id)\<close> stores a texture name that was not in use and marks it used;
  the model takes the successor of the largest name in use (zero is never a name).
\<close>

definition unused_texture_name :: "nat list \<Rightarrow> nat" where
  "unused_texture_name used = Suc (fold max used 0)"

definition gl_GenTextures :: "SceneManager \<Rightarrow> nat \<times> SceneManager" where
  "gl_GenTextures sm =
     (let name = unused_texture_name (gl_textures sm)
      in (name, emit (glGenTextures name) (sm\<lparr>gl_textures := gl_textures sm @ [name]\<rparr>)))"

text \<open>
  \<open>CreateGLTexture\<close>, lines 60-124. \<open>stbi_load\<close> is the image decoder: \<open>None\<close> is
  its null result. Lines 105-117, which both supported formats reach, are
  \<open>CreateGLTexture_register\<close>; the branch for any other channel count returns before
  them.
\<close>

definition CreateGLTexture_register ::
  "nat \<Rightarrow> string \<Rightarrow> SceneManager \<Rightarrow> error + bool \<times> SceneManager" where
  "CreateGLTexture_register textureID tg sm =
     (let sm = emit glGenerateMipmap sm;
          sm = emit stbi_image_free sm;
          sm = emit (glBindTexture 0) sm
      in if 0 \<le> m_loadedTextures sm \<and> m_loadedTextures sm < int (length (m_textureIDs sm)) then
           Inr (True,
             sm\<lparr>m_textureIDs := (m_textureIDs sm)
                    [nat (m_loadedTextures sm) := \<lparr>ID = textureID, tag = tg\<rparr>],
                m_loadedTextures := m_loadedTextures sm + 1\<rparr>)
         else Inl ArrayIndexOutOfBounds)"

definition CreateGLTexture ::
  "(string \<Rightarrow> stb_image option) \<Rightarrow> string \<Rightarrow> string \<Rightarrow> SceneManager
    \<Rightarrow> error + bool \<times> SceneManager" where
  "CreateGLTexture stbi_load filename tg sm =
     (let sm = emit (stbi_set_flip_vertically_on_load True) sm in
      case stbi_load filename of
        Some img \<Rightarrow>
          (let sm = emit (cout_loaded filename (width img) (height img) (colorChannels img)) sm;
               (textureID, sm) = gl_GenTextures sm;
               sm = emit (glBindTexture textureID) sm;
               sm = emit glTexParameteri_WRAP_S_REPEAT sm;
               sm = emit glTexParameteri_WRAP_T_REPEAT sm;
               sm = emit glTexParameteri_MIN_FILTER_LINEAR sm;
               sm = emit glTexParameteri_MAG_FILTER_LINEAR sm
           in if colorChannels img = 3 then
                CreateGLTexture_register textureID tg
                  (emit (glTexImage2D GL_RGB (width img) (height img) (pixels img)) sm)
              else if colorChannels img = 4 then
                CreateGLTexture_register textureID tg
                  (emit (glTexImage2D GL_RGBA (width img) (height img) (pixels img)) sm)
              else Inr (False, emit (cout_not_implemented (colorChannels img)) sm))
      | None \<Rightarrow> Inr (False, emit (cout_could_not_load filename) sm))"

text \<open>\<open>DestroyGLTextures\<close>, lines 148-154: the loop body calls \<open>glGenTextures\<close>.\<close>

function DestroyGLTextures_loop :: "int \<Rightarrow> SceneManager \<Rightarrow> error + SceneManager" where
  "DestroyGLTextures_loop i sm =
     (if i < m_loadedTextures sm then
        (case array_at (m_textureIDs sm) i of
           Inl e \<Rightarrow> Inl e
         | Inr entry \<Rightarrow>
             DestroyGLTextures_loop (i + 1)
               ((snd (gl_GenTextures sm))
                  \<lparr>m_textureIDs := (m_textureIDs sm)[nat i := entry\<lparr>ID := fst (gl_GenTextures sm)\<rparr>]\<rparr>))
      else Inr sm)"
  by pat_completeness auto
termination
  by (relation "measure (\<lambda>(i, sm). nat (m_loadedTextures sm - i))")
     (auto simp: gl_GenTextures_def emit_def Let_def)

declare DestroyGLTextures_loop.simps [simp del]

definition DestroyGLTextures :: "SceneManager \<Rightarrow> error + SceneManager" where
  "DestroyGLTextures sm = DestroyGLTextures_loop 0 sm"

text \<open>\<open>FindTextureSlot\<close>, lines 188-206.\<close>

function FindTextureSlot_loop ::
  "SceneManager \<Rightarrow> string \<Rightarrow> int \<Rightarrow> bool \<Rightarrow> int \<Rightarrow> error + int" where
  "FindTextureSlot_loop sm t index bFound textureSlot =
     (if index < m_loadedTextures sm \<and> bFound = False then
        (case array_at (m_textureIDs sm) index of
           Inl e \<Rightarrow> Inl e
         | Inr entry \<Rightarrow>
             if tag entry = t then FindTextureSlot_loop sm t index True index
             else FindTextureSlot_loop sm t (index + 1) bFound textureSlot)
      else Inr textureSlot)"
  by pat_completeness auto
termination
  by (relation "measure (\<lambda>(sm, t, index, bFound, textureSlot).
        if bFound then 0 else 1 + nat (m_loadedTextures sm - index))") auto

declare FindTextureSlot_loop.simps [simp del]

definition FindTextureSlot :: "SceneManager \<Rightarrow> string \<Rightarrow> error + int" where
  "FindTextureSlot sm t = FindTextureSlot_loop sm t 0 False (- 1)"

section \<open>Transform composer\<close>

text \<open>
  The glm library is not part of the repository; its functions are written as glm's
  headers compute them, over the reals. \<open>mat4_times_vec4\<close> is \<open>m * v\<close>,
  \<open>mat4_times\<close> is \<open>m1 * m2\<close> (column \<open>j\<close> of the product is \<open>m1\<close> times column \<open>j\<close> of
  \<open>m2\<close>), \<open>glm_scale\<close>, \<open>glm_rotate\<close> and \<open>glm_translate\<close> are the one- and two-argument
  forms of glm/gtx/transform.hpp, which transform the identity matrix.
\<close>

fun vec4_times :: "vec4 \<Rightarrow> real \<Rightarrow> vec4" where
  "vec4_times (x, y, z, w) s = (x * s, y * s, z * s, w * s)"

fun vec4_plus :: "vec4 \<Rightarrow> vec4 \<Rightarrow> vec4" where
  "vec4_plus (x, y, z, w) (x', y', z', w') = (x + x', y + y', z + z', w + w')"

definition mat4_identity :: mat4 where
  "mat4_identity = ((1, 0, 0, 0), (0, 1, 0, 0), (0, 0, 1, 0), (0, 0, 0, 1))"

fun mat4_times_vec4 :: "mat4 \<Rightarrow> vec4 \<Rightarrow> vec4" where
  "mat4_times_vec4 (m0, m1, m2, m3) (x, y, z, w) =
     vec4_plus (vec4_plus (vec4_plus (vec4_times m0 x) (vec4_times m1 y)) (vec4_times m2 z))
       (vec4_times m3 w)"

fun mat4_times :: "mat4 \<Rightarrow> mat4 \<Rightarrow> mat4" where
  "mat4_times a (b0, b1, b2, b3) =
     (mat4_times_vec4 a b0, mat4_times_vec4 a b1, mat4_times_vec4 a b2, mat4_times_vec4 a b3)"

definition glm_radians :: "real \<Rightarrow> real" where
  "glm_radians degrees = degrees * (pi / 180)"

fun glm_normalize :: "vec3 \<Rightarrow> vec3" where
  "glm_normalize (x, y, z) =
     (let inversesqrt = 1 / sqrt (x * x + y * y + z * z)
      in (x * inversesqrt, y * inversesqrt, z * inversesqrt))"

fun glm_scale :: "vec3 \<Rightarrow> mat4" where
  "glm_scale (x, y, z) =
     (case mat4_identity of (m0, m1, m2, m3) \<Rightarrow>
        (vec4_times m0 x, vec4_times m1 y, vec4_times m2 z, m3))"

fun glm_translate :: "vec3 \<Rightarrow> mat4" where
  "glm_translate (x, y, z) =
     (case mat4_identity of (m0, m1, m2, m3) \<Rightarrow>
        (m0, m1, m2,
         vec4_plus (vec4_plus (vec4_plus (vec4_times m0 x) (vec4_times m1 y)) (vec4_times m2 z)) m3))"

definition glm_rotate :: "real \<Rightarrow> vec3 \<Rightarrow> mat4" where
  "glm_rotate angle v =
     (let c = cos angle; s = sin angle in
      case glm_normalize v of (ax, ay, az) \<Rightarrow>
      case ((1 - c) * ax, (1 - c) * ay, (1 - c) * az) of (tx, ty, tz) \<Rightarrow>
      case mat4_identity of (m0, m1, m2, m3) \<Rightarrow>
        (vec4_plus (vec4_plus (vec4_times m0 (c + tx * ax)) (vec4_times m1 (tx * ay + s * az)))
           (vec4_times m2 (tx * az - s * ay)),
         vec4_plus (vec4_plus (vec4_times m0 (ty * ax - s * az)) (vec4_times m1 (c + ty * ay)))
           (vec4_times m2 (ty * az + s * ax)),
         vec4_plus (vec4_plus (vec4_times m0 (tz * ax + s * ay)) (vec4_times m1 (tz * ay - s * ax)))
           (vec4_times m2 (c + tz * az)),
         m3))"

text \<open>The names of the uniforms, lines 20-27.\<close>

definition g_ModelName :: string where "g_ModelName = ''model''"
definition g_ColorValueName :: string where "g_ColorValueName = ''objectColor''"
definition g_TextureValueName :: string where "g_TextureValueName = ''objectTexture''"
definition g_UseTextureName :: string where "g_UseTextureName = ''bUseTexture''"
definition g_UseLightingName :: string where "g_UseLightingName = ''bUseLighting''"

text \<open>
  \<open>SetTransformations\<close>, lines 249-279. The code computes \<open>modelView\<close> in 32-bit
  floats and rounds after every operation; the definition computes it over the reals.
  The two agree where no operation rounds: with all three angles 0 the rotations are
  the identity matrix exactly (\<open>cos 0 = 1\<close>, \<open>sin 0 = 0\<close>) and the products only
  multiply by 0 and 1 and add 0. For other angles the matrix the code pushes is a
  rounded one that this definition does not give; nothing below is derived from the
  definition at such angles. Whether a write happens at all (the null check) does not
  depend on the arithmetic.
\<close>

definition SetTransformations ::
  "SceneManager \<Rightarrow> vec3 \<Rightarrow> real \<Rightarrow> real \<Rightarrow> real \<Rightarrow> vec3 \<Rightarrow> error + SceneManager" where
  "SetTransformations sm scaleXYZ XrotationDegrees YrotationDegrees ZrotationDegrees positionXYZ =
     (let scale = glm_scale scaleXYZ;
          rotationX = glm_rotate (glm_radians XrotationDegrees) (1, 0, 0);
          rotationY = glm_rotate (glm_radians YrotationDegrees) (0, 1, 0);
          rotationZ = glm_rotate (glm_radians ZrotationDegrees) (0, 0, 1);
          translation = glm_translate positionXYZ;
          modelView =
            mat4_times (mat4_times (mat4_times (mat4_times translation rotationX) rotationY)
              rotationZ) scale
      in if m_pShaderManager sm \<noteq> None then call_shader sm (setMat4Value g_ModelName modelView)
         else Inr sm)"

section \<open>Shader state pusher\<close>

text \<open>
  \<open>SetShaderColor\<close>, lines 287-306. \<open>setIntValue(g_UseTextureName, false)\<close> passes the
  \<open>bool\<close> as the \<open>int\<close> 0, and \<open>true\<close> (in \<open>SetShaderTexture\<close>) as 1.
\<close>

definition SetShaderColor ::
  "SceneManager \<Rightarrow> real \<Rightarrow> real \<Rightarrow> real \<Rightarrow> real \<Rightarrow> error + SceneManager" where
  "SetShaderColor sm redColorValue greenColorValue blueColorValue alphaValue =
     (let currentColor = (redColorValue, greenColorValue, blueColorValue, alphaValue)
      in if m_pShaderManager sm \<noteq> None then
           then_do (call_shader sm (setIntValue g_UseTextureName 0))
             (\<lambda>sm. call_shader sm (setVec4Value g_ColorValueName currentColor))
         else Inr sm)"

text \<open>\<open>SetShaderTexture\<close>, lines 314-325.\<close>

definition SetShaderTexture :: "SceneManager \<Rightarrow> string \<Rightarrow> error + SceneManager" where
  "SetShaderTexture sm textureTag =
     (if m_pShaderManager sm \<noteq> None then
        then_do (call_shader sm (setIntValue g_UseTextureName 1))
          (\<lambda>sm. then_do (FindTextureSlot sm textureTag)
            (\<lambda>textureID. call_shader sm (setSampler2DValue g_TextureValueName textureID)))
      else Inr sm)"

text \<open>\<open>SetTextureUVScale\<close>, lines 333-339.\<close>

definition SetTextureUVScale :: "SceneManager \<Rightarrow> real \<Rightarrow> real \<Rightarrow> error + SceneManager" where
  "SetTextureUVScale sm u v =
     (if m_pShaderManager sm \<noteq> None then call_shader sm (setVec2Value ''UVscale'' (u, v))
      else Inr sm)"

text \<open>
  \<open>SetShaderMaterial\<close>, lines 347-365. The local \<open>OBJECT_MATERIAL material\<close> is declared
  without an initialiser: what it holds before \<open>FindMaterial\<close> writes to it is the
  parameter \<open>indeterminate\<close>. The five calls are not guarded by a null check.
\<close>

definition SetShaderMaterial ::
  "OBJECT_MATERIAL \<Rightarrow> SceneManager \<Rightarrow> string \<Rightarrow> error + SceneManager" where
  "SetShaderMaterial indeterminate sm materialTag =
     (if length (m_objectMaterials sm) > 0 then
        (case FindMaterial sm materialTag indeterminate of (bReturn, material) \<Rightarrow>
           if bReturn = True then
             then_do (call_shader sm (setVec3Value ''material.ambientColor'' (ambientColor material)))
               (\<lambda>sm. then_do (call_shader sm
                   (setFloatValue ''material.ambientStrength'' (ambientStrength material)))
               (\<lambda>sm. then_do (call_shader sm
                   (setVec3Value ''material.diffuseColor'' (diffuseColor material)))
               (\<lambda>sm. then_do (call_shader sm
                   (setVec3Value ''material.specularColor'' (specularColor material)))
               (\<lambda>sm. call_shader sm (setFloatValue ''material.shininess'' (shininess material))))))
           else Inr sm)
      else Inr sm)"

section \<open>Scene composer\<close>

text \<open>\<open>DefineObjectMaterials\<close>, lines 416-463: four \<open>push_back\<close> calls.\<close>

definition counterMaterial :: OBJECT_MATERIAL where
  "counterMaterial =
     \<lparr>ambientColor = (0.5, 0.5, 0.5), ambientStrength = 0.3, diffuseColor = (0.2, 0.2, 0.2),
      specularColor = (0.2, 0.2, 0.2), shininess = 32, material_tag = ''counter''\<rparr>"

definition mugOuterMaterial :: OBJECT_MATERIAL where
  "mugOuterMaterial =
     \<lparr>ambientColor = (1, 1, 1), ambientStrength = 0.5, diffuseColor = (0.3, 0.3, 0.3),
      specularColor = (0.1, 0.1, 0.1), shininess = 8, material_tag = ''mugOuter''\<rparr>"

definition handleMaterial :: OBJECT_MATERIAL where
  "handleMaterial =
     \<lparr>ambientColor = (1, 1, 1), ambientStrength = 0.5, diffuseColor = (0.3, 0.3, 0.3),
      specularColor = (0.1, 0.1, 0.1), shininess = 8, material_tag = ''mugHandle''\<rparr>"

definition woodMaterial :: OBJECT_MATERIAL where
  "woodMaterial =
     \<lparr>ambientColor = (0.76, 0.60, 0.42), ambientStrength = 0.5, diffuseColor = (0.65, 0.45, 0.30),
      specularColor = (0.2, 0.2, 0.2), shininess = 16, material_tag = ''wood''\<rparr>"

definition DefineObjectMaterials :: "SceneManager \<Rightarrow> SceneManager" where
  "DefineObjectMaterials sm =
     sm\<lparr>m_objectMaterials :=
          m_objectMaterials sm @ [counterMaterial, mugOuterMaterial, handleMaterial, woodMaterial]\<rparr>"

text \<open>
  \<open>DrawGrapes\<close>, lines 609-634. \<open>glm::vec3(s)\<close> is the vector with all three
  components \<open>s\<close>. \<open>m_basicMeshes->DrawSphereMesh()\<close> is the event \<open>DrawMesh SphereMesh\<close>.
\<close>

definition grapePositions :: "vec3 list" where
  "grapePositions =
     [(- 3.0, 0.4, 7.5), (- 2.8, 0.38, 6.9), (- 2.6, 0.40, 7.3),
      (- 2.0, 0.4, 6.4), (- 2.6, 0.40, 7.8), (- 2.6, 0.38, 6.4)]"

definition grapeSizes :: "real list" where
  "grapeSizes = [0.2, 0.18, 0.22, 0.19, 0.21, 0.17]"

function DrawGrapes_loop :: "nat \<Rightarrow> SceneManager \<Rightarrow> error + SceneManager" where
  "DrawGrapes_loop i sm =
     (if i < 6 then
        (let scaleXYZ = (grapeSizes ! i, grapeSizes ! i, grapeSizes ! i);
             positionXYZ = grapePositions ! i
         in then_do (SetTransformations sm scaleXYZ 0 0 0 positionXYZ)
              (\<lambda>sm. then_do (SetShaderColor sm 0.5 0 0.5 1)
              (\<lambda>sm. DrawGrapes_loop (i + 1) (emit (DrawMesh SphereMesh) sm))))
      else Inr sm)"
  by pat_completeness auto
termination
  by (relation "measure (\<lambda>(i, sm). 6 - i)") auto

declare DrawGrapes_loop.simps [simp del]

definition DrawGrapes :: "SceneManager \<Rightarrow> error + SceneManager" where
  "DrawGrapes sm = DrawGrapes_loop 0 sm"

section \<open>Definitions used to state the properties\<close>

subsection \<open>Reading the state\<close>

text \<open>The value the shader holds under a uniform name; none without a shader.\<close>

definition uniform_of :: "SceneManager \<Rightarrow> string \<Rightarrow> uniform_value option" where
  "uniform_of sm name = (case m_pShaderManager sm of None \<Rightarrow> None | Some sh \<Rightarrow> uniforms sh name)"

text \<open>The tags of the registered textures, in slot order.\<close>

definition registered_tags :: "SceneManager \<Rightarrow> string list" where
  "registered_tags sm = map tag (take (nat (m_loadedTextures sm)) (m_textureIDs sm))"

text \<open>The position of the first occurrence of a tag in a list of tags.\<close>

definition first_index :: "string list \<Rightarrow> string \<Rightarrow> nat" where
  "first_index tags t = length (takeWhile (\<lambda>x. x \<noteq> t) tags)"

text \<open>
  A sequence of registrations: \<open>CreateGLTexture\<close> called for each file and tag in turn,
  as \<open>LoadSceneTextures\<close> (lines 381-396) does for its four files. The \<open>bool\<close> says
  whether every call returned \<open>true\<close>.
\<close>

fun register_all ::
  "(string \<Rightarrow> stb_image option) \<Rightarrow> (string \<times> string) list \<Rightarrow> SceneManager
    \<Rightarrow> error + bool \<times> SceneManager" where
  "register_all stbi_load [] sm = Inr (True, sm)"
| "register_all stbi_load ((filename, tg) # rest) sm =
     then_do (CreateGLTexture stbi_load filename tg sm)
       (\<lambda>(bReturn, sm). then_do (register_all stbi_load rest sm)
         (\<lambda>(bRest, sm). Inr (bReturn \<and> bRest, sm)))"

subsection \<open>The events of drawing the grapes\<close>

text \<open>
  What one iteration of the loop of \<open>DrawGrapes\<close> issues when there is a shader: the
  transform push, whose matrix has the grape's size on the diagonal and its position in
  the last column, the two writes of \<open>SetShaderColor\<close>, and the draw.
\<close>

definition grape_iteration :: "nat \<Rightarrow> event list" where
  "grape_iteration i =
     (case grapePositions ! i of (x, y, z) \<Rightarrow>
        [setMat4Value ''model''
           ((grapeSizes ! i, 0, 0, 0), (0, grapeSizes ! i, 0, 0), (0, 0, grapeSizes ! i, 0),
            (x, y, z, 1)),
         setIntValue ''bUseTexture'' 0,
         setVec4Value ''objectColor'' (0.5, 0, 0.5, 1),
         DrawMesh SphereMesh])"

fun is_draw :: "event \<Rightarrow> bool" where
  "is_draw (DrawMesh shape) = True"
| "is_draw _ = False"

fun is_transform_push :: "event \<Rightarrow> bool" where
  "is_transform_push (setMat4Value name m) = (name = ''model'')"
| "is_transform_push _ = False"

text \<open>
  Every draw in a list of events comes directly after a transform push; \<open>previous\<close> is
  the event before the list, if any.
\<close>

fun draws_follow_push :: "event option \<Rightarrow> event list \<Rightarrow> bool" where
  "draws_follow_push previous [] = True"
| "draws_follow_push previous (e # es) =
     ((if is_draw e then (case previous of None \<Rightarrow> False | Some p \<Rightarrow> is_transform_push p)
       else True)
      \<and> draws_follow_push (Some e) es)"

subsection \<open>Example states\<close>

text \<open>
  A scene before \<open>PrepareScene\<close>: a shader with no uniform written, sixteen texture
  slots, none loaded, no material. \<open>null_shader_scene\<close> is the same scene built on the
  null pointer.
\<close>

definition fresh_scene :: SceneManager where
  "fresh_scene =
     \<lparr>m_pShaderManager = Some \<lparr>uniforms = Map.empty\<rparr>,
      m_textureIDs = replicate 16 \<lparr>ID = 0, tag = []\<rparr>,
      m_loadedTextures = 0, m_objectMaterials = [], gl_textures = [], trace = []\<rparr>"

definition null_shader_scene :: SceneManager where
  "null_shader_scene = fresh_scene\<lparr>m_pShaderManager := None\<rparr>"

text \<open>One texture, tagged mug, is loaded under the texture name 1.\<close>

definition one_texture_scene :: SceneManager where
  "one_texture_scene =
     fresh_scene\<lparr>m_textureIDs := (m_textureIDs fresh_scene)[0 := \<lparr>ID = 1, tag = ''mug''\<rparr>],
       m_loadedTextures := 1, gl_textures := [1]\<rparr>"

text \<open>\<open>one_texture_scene\<close> after \<open>SetShaderTexture\<close> for the tag mug.\<close>

definition textured_scene :: SceneManager where
  "textured_scene =
     one_texture_scene\<lparr>m_pShaderManager :=
         Some \<lparr>uniforms = [''bUseTexture'' \<mapsto> UInt 1, ''objectTexture'' \<mapsto> UInt 0]\<rparr>,
       trace := [setIntValue ''bUseTexture'' 1, setSampler2DValue ''objectTexture'' 0]\<rparr>"

definition rgb_image :: stb_image where
  "rgb_image = \<lparr>pixels = [255, 0, 0], width = 1, height = 1, colorChannels = 3\<rparr>"

definition grey_image :: stb_image where
  "grey_image = \<lparr>pixels = [128], width = 1, height = 1, colorChannels = 1\<rparr>"

text \<open>Two materials share the tag counter; the countertop's was defined first.\<close>

definition duplicate_tag_scene :: SceneManager where
  "duplicate_tag_scene =
     fresh_scene\<lparr>m_objectMaterials :=
       [mugOuterMaterial, counterMaterial, woodMaterial\<lparr>material_tag := ''counter''\<rparr>]\<rparr>"

text \<open>
  The scene's four materials are defined and the shader holds the countertop's material,
  as after \<open>SetShaderMaterial\<close> for the tag counter.
\<close>

definition counter_lit_scene :: SceneManager where
  "counter_lit_scene =
     (DefineObjectMaterials fresh_scene)
       \<lparr>m_pShaderManager := Some \<lparr>uniforms =
          [''material.ambientColor'' \<mapsto> UVec3 (0.5, 0.5, 0.5),
           ''material.ambientStrength'' \<mapsto> UFloat 0.3,
           ''material.diffuseColor'' \<mapsto> UVec3 (0.2, 0.2, 0.2),
           ''material.specularColor'' \<mapsto> UVec3 (0.2, 0.2, 0.2),
           ''material.shininess'' \<mapsto> UFloat 32]\<rparr>\<rparr>"

section \<open>Basic facts about the state\<close>

lemma emit_fields [simp]:
  "m_loadedTextures (emit e sm) = m_loadedTextures sm"
  "m_textureIDs (emit e sm) = m_textureIDs sm"
  "m_objectMaterials (emit e sm) = m_objectMaterials sm"
  "m_pShaderManager (emit e sm) = m_pShaderManager sm"
  "gl_textures (emit e sm) = gl_textures sm"
  "trace (emit e sm) = trace sm @ [e]"
  by (simp_all add: emit_def)

lemma gl_GenTextures_fields [simp]:
  "m_loadedTextures (snd (gl_GenTextures sm)) = m_loadedTextures sm"
  "m_textureIDs (snd (gl_GenTextures sm)) = m_textureIDs sm"
  "m_objectMaterials (snd (gl_GenTextures sm)) = m_objectMaterials sm"
  "m_pShaderManager (snd (gl_GenTextures sm)) = m_pShaderManager sm"
  "gl_textures (snd (gl_GenTextures sm)) = gl_textures sm @ [unused_texture_name (gl_textures sm)]"
  "trace (snd (gl_GenTextures sm)) = trace sm @ [glGenTextures (unused_texture_name (gl_textures sm))]"
  "fst (gl_GenTextures sm) = unused_texture_name (gl_textures sm)"
  by (simp_all add: gl_GenTextures_def Let_def)

lemma then_do_Inr [simp]: "then_do (Inr x) f = f x"
  by (simp add: then_do_def)

lemma then_do_Inl [simp]: "then_do (Inl e) f = Inl e"
  by (simp add: then_do_def)

lemma call_shader_Some:
  "m_pShaderManager sm = Some sh \<Longrightarrow>
   call_shader sm e = Inr (sm\<lparr>m_pShaderManager := Some (shader_effect e sh), trace := trace sm @ [e]\<rparr>)"
  by (simp add: call_shader_def)

lemma upt_0_6: "[0..<6] = [0, 1, 2, 3, 4, 5]"
  by code_simp

lemma replicate_6: "replicate 6 x = [x, x, x, x, x, x]"
  by (simp add: numeral_eq_Suc)

section \<open>Material registry: lookup\<close>

lemma FindMaterial_loop_found:
  "FindMaterial_loop ms t index True material = material"
  by (simp add: FindMaterial_loop.simps)

text \<open>The loop walks over a prefix in which no tag matches.\<close>

lemma FindMaterial_loop_skip:
  "index \<le> length pre \<Longrightarrow> list_all (\<lambda>x. material_tag x \<noteq> t) pre \<Longrightarrow>
   FindMaterial_loop (pre @ post) t index False material =
   FindMaterial_loop (pre @ post) t (length pre) False material"
proof (induction "length pre - index" arbitrary: index)
  case 0
  then show ?case by simp
next
  case (Suc n)
  then have lt: "index < length pre" by simp
  with Suc.prems have "material_tag (pre ! index) \<noteq> t"
    by (simp add: list_all_length)
  with lt have "FindMaterial_loop (pre @ post) t index False material =
      FindMaterial_loop (pre @ post) t (index + 1) False material"
    by (subst FindMaterial_loop.simps) (simp add: nth_append)
  also have "\<dots> = FindMaterial_loop (pre @ post) t (length pre) False material"
    using Suc lt by (intro Suc.hyps) auto
  finally show ?case .
qed

lemma FindMaterial_loop_miss:
  "list_all (\<lambda>x. material_tag x \<noteq> t) ms \<Longrightarrow> FindMaterial_loop ms t 0 False material = material"
  using FindMaterial_loop_skip [of 0 ms t "[]" material]
  by (simp add: FindMaterial_loop.simps [of ms t "length ms"])

lemma FindMaterial_loop_first:
  "list_all (\<lambda>x. material_tag x \<noteq> material_tag m) pre \<Longrightarrow>
   FindMaterial_loop (pre @ m # post) (material_tag m) 0 False material =
     material\<lparr>ambientColor := ambientColor m, ambientStrength := ambientStrength m,
       diffuseColor := diffuseColor m, specularColor := specularColor m,
       shininess := shininess m\<rparr>"
  using FindMaterial_loop_skip [of 0 pre "material_tag m" "m # post" material]
  by (simp add: FindMaterial_loop.simps [of _ _ "length pre" False] FindMaterial_loop_found)

text \<open>On the empty registry the lookup returns \<open>false\<close> and leaves the out-parameter alone.\<close>

lemma FindMaterial_empty:
  "m_objectMaterials sm = [] \<Longrightarrow> FindMaterial sm t material = (False, material)"
  by (simp add: FindMaterial_def)

text \<open>
  On a registry that is not empty and holds no entry with the tag, the lookup leaves the
  out-parameter alone as well, but line 240 returns \<open>true\<close>: the flag \<open>bFound\<close> is not
  what the function returns.
\<close>

lemma FindMaterial_miss:
  "m_objectMaterials sm \<noteq> [] \<Longrightarrow> list_all (\<lambda>x. material_tag x \<noteq> t) (m_objectMaterials sm) \<Longrightarrow>
   FindMaterial sm t material = (True, material)"
  by (simp add: FindMaterial_def FindMaterial_loop_miss)

text \<open>
  C1 (the lookup returns "not found" when the registry is empty or no tag matches).
  The code does so on the empty registry only (\<open>FindMaterial_empty\<close>). With the four
  materials of \<open>DefineObjectMaterials\<close> defined and the tag glass, which none of them
  bears, \<open>FindMaterial\<close> returns \<open>true\<close> and hands back the caller's \<open>material\<close> as it
  was passed in, whatever it held.
\<close>

theorem FindMaterial_unknown_tag_returns_true:
  "FindMaterial (DefineObjectMaterials fresh_scene) ''glass'' material = (True, material)"
  by (rule FindMaterial_miss)
     (simp_all add: DefineObjectMaterials_def fresh_scene_def counterMaterial_def
        mugOuterMaterial_def handleMaterial_def woodMaterial_def)

text \<open>
  C8 (with duplicate tags the first-defined entry is the one returned). If the entry
  \<open>m\<close> stands in the registry after entries none of which bears its tag, the lookup by
  that tag returns \<open>true\<close> and copies the five fields of \<open>m\<close>, whatever follows \<open>m\<close> in
  the registry: a later entry with the same tag is never returned.
\<close>

theorem FindMaterial_first_match:
  "m_objectMaterials sm = pre @ m # post \<Longrightarrow>
   list_all (\<lambda>x. material_tag x \<noteq> material_tag m) pre \<Longrightarrow>
   FindMaterial sm (material_tag m) material =
     (True, material\<lparr>ambientColor := ambientColor m, ambientStrength := ambientStrength m,
       diffuseColor := diffuseColor m, specularColor := specularColor m,
       shininess := shininess m\<rparr>)"
  by (simp add: FindMaterial_def FindMaterial_loop_first)

theorem FindMaterial_first_match_witness:
  "m_objectMaterials duplicate_tag_scene =
      [mugOuterMaterial] @ counterMaterial # [woodMaterial\<lparr>material_tag := ''counter''\<rparr>]
   \<and> material_tag (woodMaterial\<lparr>material_tag := ''counter''\<rparr>) = material_tag counterMaterial
   \<and> FindMaterial duplicate_tag_scene ''counter'' handleMaterial =
       (True, handleMaterial\<lparr>ambientColor := (0.5, 0.5, 0.5), ambientStrength := 0.3,
          diffuseColor := (0.2, 0.2, 0.2), specularColor := (0.2, 0.2, 0.2), shininess := 32\<rparr>)"
  using FindMaterial_first_match [of duplicate_tag_scene "[mugOuterMaterial]" counterMaterial
      "[woodMaterial\<lparr>material_tag := ''counter''\<rparr>]" handleMaterial]
  by (simp add: duplicate_tag_scene_def counterMaterial_def mugOuterMaterial_def)

section \<open>Material registry: pushing a material\<close>

text \<open>For a tag that is found, the five fields of the first matching entry are pushed.\<close>

lemma SetShaderMaterial_first:
  assumes "m_pShaderManager sm = Some sh" "m_objectMaterials sm = pre @ m # post"
    "list_all (\<lambda>x. material_tag x \<noteq> material_tag m) pre"
  shows "SetShaderMaterial indeterminate sm (material_tag m) =
    Inr (sm\<lparr>m_pShaderManager := Some
            (set_uniform ''material.shininess'' (UFloat (shininess m))
            (set_uniform ''material.specularColor'' (UVec3 (specularColor m))
            (set_uniform ''material.diffuseColor'' (UVec3 (diffuseColor m))
            (set_uniform ''material.ambientStrength'' (UFloat (ambientStrength m))
            (set_uniform ''material.ambientColor'' (UVec3 (ambientColor m)) sh))))),
          trace := trace sm @
            [setVec3Value ''material.ambientColor'' (ambientColor m),
             setFloatValue ''material.ambientStrength'' (ambientStrength m),
             setVec3Value ''material.diffuseColor'' (diffuseColor m),
             setVec3Value ''material.specularColor'' (specularColor m),
             setFloatValue ''material.shininess'' (shininess m)]\<rparr>)"
  using assms
  by (simp add: SetShaderMaterial_def FindMaterial_def FindMaterial_loop_first call_shader_def)

text \<open>
  For a tag that no entry of a non-empty registry bears, \<open>FindMaterial\<close> returns
  \<open>true\<close>, so the five writes happen all the same, with what the uninitialised local
  held.
\<close>

lemma SetShaderMaterial_miss:
  assumes "m_pShaderManager sm = Some sh" "m_objectMaterials sm \<noteq> []"
    "list_all (\<lambda>x. material_tag x \<noteq> t) (m_objectMaterials sm)"
  shows "SetShaderMaterial indeterminate sm t =
    Inr (sm\<lparr>m_pShaderManager := Some
            (set_uniform ''material.shininess'' (UFloat (shininess indeterminate))
            (set_uniform ''material.specularColor'' (UVec3 (specularColor indeterminate))
            (set_uniform ''material.diffuseColor'' (UVec3 (diffuseColor indeterminate))
            (set_uniform ''material.ambientStrength'' (UFloat (ambientStrength indeterminate))
            (set_uniform ''material.ambientColor'' (UVec3 (ambientColor indeterminate)) sh))))),
          trace := trace sm @
            [setVec3Value ''material.ambientColor'' (ambientColor indeterminate),
             setFloatValue ''material.ambientStrength'' (ambientStrength indeterminate),
             setVec3Value ''material.diffuseColor'' (diffuseColor indeterminate),
             setVec3Value ''material.specularColor'' (specularColor indeterminate),
             setFloatValue ''material.shininess'' (shininess indeterminate)]\<rparr>)"
  using assms by (simp add: SetShaderMaterial_def FindMaterial_miss call_shader_def)

text \<open>
  C2 (for a tag absent from a non-empty registry the five material uniforms keep their
  prior values). In \<open>counter_lit_scene\<close> the shader holds the countertop's material,
  shininess 32. \<open>SetShaderMaterial\<close> for the tag glass, which no material bears, issues
  the five writes: afterwards the shininess and the ambient colour are those of the
  uninitialised local \<open>material\<close>, for every content \<open>indeterminate\<close> of that local.
\<close>

theorem SetShaderMaterial_unknown_tag_overwrites:
  "uniform_of counter_lit_scene ''material.shininess'' = Some (UFloat 32)
   \<and> (\<exists>sm'. SetShaderMaterial indeterminate counter_lit_scene ''glass'' = Inr sm'
        \<and> uniform_of sm' ''material.shininess'' = Some (UFloat (shininess indeterminate))
        \<and> uniform_of sm' ''material.ambientColor'' = Some (UVec3 (ambientColor indeterminate))
        \<and> trace sm' =
            [setVec3Value ''material.ambientColor'' (ambientColor indeterminate),
             setFloatValue ''material.ambientStrength'' (ambientStrength indeterminate),
             setVec3Value ''material.diffuseColor'' (diffuseColor indeterminate),
             setVec3Value ''material.specularColor'' (specularColor indeterminate),
             setFloatValue ''material.shininess'' (shininess indeterminate)])"
proof -
  have sh: "m_pShaderManager counter_lit_scene = Some \<lparr>uniforms =
          [''material.ambientColor'' \<mapsto> UVec3 (0.5, 0.5, 0.5),
           ''material.ambientStrength'' \<mapsto> UFloat 0.3,
           ''material.diffuseColor'' \<mapsto> UVec3 (0.2, 0.2, 0.2),
           ''material.specularColor'' \<mapsto> UVec3 (0.2, 0.2, 0.2),
           ''material.shininess'' \<mapsto> UFloat 32]\<rparr>"
    by (simp add: counter_lit_scene_def)
  have ms: "m_objectMaterials counter_lit_scene =
      [counterMaterial, mugOuterMaterial, handleMaterial, woodMaterial]"
    by (simp add: counter_lit_scene_def DefineObjectMaterials_def fresh_scene_def)
  have miss: "list_all (\<lambda>x. material_tag x \<noteq> ''glass'') (m_objectMaterials counter_lit_scene)"
    by (simp add: ms counterMaterial_def mugOuterMaterial_def handleMaterial_def woodMaterial_def)
  have tr: "trace counter_lit_scene = []"
    by (simp add: counter_lit_scene_def DefineObjectMaterials_def fresh_scene_def)
  show ?thesis
    using SetShaderMaterial_miss [OF sh _ miss, of indeterminate]
    by (simp add: ms tr uniform_of_def set_uniform_def sh)
qed

section \<open>Texture registry: registration and lookup\<close>

lemma CreateGLTexture_register_True:
  assumes "CreateGLTexture_register textureID tg sm = Inr (True, sm')"
  shows "0 \<le> m_loadedTextures sm" and "m_loadedTextures sm < int (length (m_textureIDs sm))"
    and "m_loadedTextures sm' = m_loadedTextures sm + 1"
    and "m_textureIDs sm' = (m_textureIDs sm)[nat (m_loadedTextures sm) := \<lparr>ID = textureID, tag = tg\<rparr>]"
  using assms by (auto simp: CreateGLTexture_register_def Let_def split: if_splits)

text \<open>A call that returns \<open>true\<close> wrote the next free slot and counted it.\<close>

lemma CreateGLTexture_True:
  assumes "CreateGLTexture stbi_load filename tg sm = Inr (True, sm')"
  shows "0 \<le> m_loadedTextures sm \<and> m_loadedTextures sm < int (length (m_textureIDs sm))
    \<and> m_loadedTextures sm' = m_loadedTextures sm + 1
    \<and> (\<exists>textureID. m_textureIDs sm' =
          (m_textureIDs sm)[nat (m_loadedTextures sm) := \<lparr>ID = textureID, tag = tg\<rparr>])"
proof (cases "stbi_load filename")
  case None
  with assms show ?thesis by (simp add: CreateGLTexture_def Let_def)
next
  case (Some img)
  with assms obtain textureID sm1 where
    reg: "CreateGLTexture_register textureID tg sm1 = Inr (True, sm')"
    and same: "m_loadedTextures sm1 = m_loadedTextures sm" "m_textureIDs sm1 = m_textureIDs sm"
    by (auto simp: CreateGLTexture_def Let_def split_beta split: if_splits)
  from CreateGLTexture_register_True [OF reg] same show ?thesis by auto
qed

lemma registered_tags_CreateGLTexture:
  assumes "CreateGLTexture stbi_load filename tg sm = Inr (True, sm')"
  shows "registered_tags sm' = registered_tags sm @ [tg]"
    and "0 \<le> m_loadedTextures sm'" and "m_loadedTextures sm' = m_loadedTextures sm + 1"
    and "m_loadedTextures sm' \<le> int (length (m_textureIDs sm'))"
proof -
  from CreateGLTexture_True [OF assms] obtain textureID where
    n: "0 \<le> m_loadedTextures sm" "m_loadedTextures sm < int (length (m_textureIDs sm))"
    and n': "m_loadedTextures sm' = m_loadedTextures sm + 1"
    and arr: "m_textureIDs sm' =
      (m_textureIDs sm)[nat (m_loadedTextures sm) := \<lparr>ID = textureID, tag = tg\<rparr>]"
    by blast
  define k where "k = nat (m_loadedTextures sm)"
  have k: "k < length (m_textureIDs sm)" "nat (m_loadedTextures sm') = Suc k"
    using n n' by (simp_all add: k_def nat_add_distrib)
  show "registered_tags sm' = registered_tags sm @ [tg]"
    using k by (simp add: registered_tags_def arr k_def [symmetric] take_Suc_conv_app_nth)
  show "0 \<le> m_loadedTextures sm'" "m_loadedTextures sm' = m_loadedTextures sm + 1"
    "m_loadedTextures sm' \<le> int (length (m_textureIDs sm'))"
    using n n' arr by simp_all
qed

text \<open>A sequence of registrations that all succeed appends its tags in order.\<close>

lemma register_all_tags:
  "register_all stbi_load reqs sm = Inr (True, sm') \<Longrightarrow> 0 \<le> m_loadedTextures sm \<Longrightarrow>
   m_loadedTextures sm \<le> int (length (m_textureIDs sm)) \<Longrightarrow>
   registered_tags sm' = registered_tags sm @ map snd reqs
   \<and> m_loadedTextures sm' = m_loadedTextures sm + int (length reqs)
   \<and> m_loadedTextures sm' \<le> int (length (m_textureIDs sm'))"
proof (induction reqs arbitrary: sm)
  case Nil
  then show ?case by simp
next
  case (Cons req rest)
  obtain filename tg where req: "req = (filename, tg)" by (cases req)
  from Cons.prems(1) obtain sm1 where
    first: "CreateGLTexture stbi_load filename tg sm = Inr (True, sm1)"
    and others: "register_all stbi_load rest sm1 = Inr (True, sm')"
    by (auto simp: req then_do_def split: sum.splits prod.splits)
  note step = registered_tags_CreateGLTexture [OF first]
  from Cons.IH [OF others step(2) step(4)] step(1) step(3) show ?case
    by (simp add: req)
qed

text \<open>The loop of \<open>FindTextureSlot\<close>, started at slot \<open>i\<close> with nothing found yet.\<close>

lemma FindTextureSlot_loop_from:
  assumes "0 \<le> m_loadedTextures sm" "m_loadedTextures sm \<le> int (length (m_textureIDs sm))"
  shows "i \<le> length (registered_tags sm) \<Longrightarrow>
    FindTextureSlot_loop sm t (int i) False slot =
      Inr (if t \<in> set (drop i (registered_tags sm))
           then int (i + first_index (drop i (registered_tags sm)) t) else slot)"
proof (induction "length (registered_tags sm) - i" arbitrary: i)
  case 0
  then have "\<not> int i < m_loadedTextures sm"
    using assms by (simp add: registered_tags_def)
  with 0 show ?case
    by (subst FindTextureSlot_loop.simps) simp
next
  case (Suc n)
  then have lt: "i < length (registered_tags sm)" by simp
  then have in_n: "int i < m_loadedTextures sm" and in_arr: "i < length (m_textureIDs sm)"
    using assms by (simp_all add: registered_tags_def)
  have at: "array_at (m_textureIDs sm) (int i) = Inr (m_textureIDs sm ! i)"
    using in_arr by (simp add: array_at_def)
  have nth: "registered_tags sm ! i = tag (m_textureIDs sm ! i)"
    using lt by (simp add: registered_tags_def)
  have drop: "drop i (registered_tags sm) =
      tag (m_textureIDs sm ! i) # drop (Suc i) (registered_tags sm)"
    using lt nth by (metis Cons_nth_drop_Suc)
  show ?case
  proof (cases "tag (m_textureIDs sm ! i) = t")
    case True
    have "FindTextureSlot_loop sm t (int i) False slot = FindTextureSlot_loop sm t (int i) True (int i)"
      using in_n at True by (subst FindTextureSlot_loop.simps) simp
    also have "\<dots> = Inr (int i)"
      by (subst FindTextureSlot_loop.simps) simp
    finally show ?thesis using True by (simp add: drop first_index_def)
  next
    case False
    have "FindTextureSlot_loop sm t (int i) False slot =
        FindTextureSlot_loop sm t (int (Suc i)) False slot"
      using in_n at False by (subst FindTextureSlot_loop.simps) (simp add: add.commute)
    also have "\<dots> = Inr (if t \<in> set (drop (Suc i) (registered_tags sm))
           then int (Suc i + first_index (drop (Suc i) (registered_tags sm)) t) else slot)"
      using Suc lt by (intro Suc.hyps) auto
    finally show ?thesis using False by (auto simp: drop first_index_def)
  qed
qed

lemma FindTextureSlot_registered_tags:
  assumes "0 \<le> m_loadedTextures sm" "m_loadedTextures sm \<le> int (length (m_textureIDs sm))"
  shows "FindTextureSlot sm t =
    Inr (if t \<in> set (registered_tags sm) then int (first_index (registered_tags sm) t) else - 1)"
  using FindTextureSlot_loop_from [OF assms, of 0 t "- 1"] by (simp add: FindTextureSlot_def)

lemma first_index_less: "t \<in> set tags \<Longrightarrow> first_index tags t < length tags"
  by (induction tags) (auto simp: first_index_def)

text \<open>
  C6 (lookup of a registered tag returns the registration-order index of its first
  entry, within the loaded count; lookup of any other tag returns -1). Starting with no
  texture loaded, after registrations with the files and tags \<open>reqs\<close> that all returned
  \<open>true\<close>, the loaded count is the number of registrations, and \<open>FindTextureSlot\<close>
  returns, for a tag among those registered, the position of its first occurrence in
  registration order, which lies from 0 up to but excluding the loaded count, and -1
  for every other tag.
\<close>

theorem FindTextureSlot_registration_order:
  assumes "m_loadedTextures sm = 0"
    and "register_all stbi_load reqs sm = Inr (True, sm')"
  shows "m_loadedTextures sm' = int (length reqs)
    \<and> FindTextureSlot sm' t =
        Inr (if t \<in> set (map snd reqs) then int (first_index (map snd reqs) t) else - 1)
    \<and> (if t \<in> set (map snd reqs)
        then 0 \<le> int (first_index (map snd reqs) t)
           \<and> int (first_index (map snd reqs) t) < m_loadedTextures sm'
        else True)"
proof -
  have tags0: "registered_tags sm = []"
    using assms(1) by (simp add: registered_tags_def)
  from register_all_tags [OF assms(2)] assms(1) tags0
  have tags: "registered_tags sm' = map snd reqs"
    and n: "m_loadedTextures sm' = int (length reqs)"
    and le: "m_loadedTextures sm' \<le> int (length (m_textureIDs sm'))"
    by simp_all
  have "FindTextureSlot sm' t =
      Inr (if t \<in> set (map snd reqs) then int (first_index (map snd reqs) t) else - 1)"
    using FindTextureSlot_registered_tags [of sm' t] n le tags by simp
  moreover have "t \<in> set (map snd reqs) \<Longrightarrow> int (first_index (map snd reqs) t) < m_loadedTextures sm'"
    using first_index_less [of t "map snd reqs"] n by simp
  ultimately show ?thesis using n by simp
qed

theorem FindTextureSlot_registration_order_witness:
  "m_loadedTextures fresh_scene = 0
   \<and> (\<exists>sm'. register_all (\<lambda>_. Some rgb_image)
          [(''white_mug.jpg'', ''mug''), (''countertop.jpg'', ''counter''),
           (''knife_handle.jpg'', ''cuttingBoard'')] fresh_scene = Inr (True, sm')
        \<and> m_loadedTextures sm' = 3
        \<and> FindTextureSlot sm' ''mug'' = Inr 0
        \<and> FindTextureSlot sm' ''counter'' = Inr 1
        \<and> FindTextureSlot sm' ''cuttingBoard'' = Inr 2
        \<and> FindTextureSlot sm' ''plate'' = Inr (- 1))"
proof -
  let ?reqs = "[(''white_mug.jpg'', ''mug''), (''countertop.jpg'', ''counter''),
           (''knife_handle.jpg'', ''cuttingBoard'')]"
  have zero: "m_loadedTextures fresh_scene = 0"
    by (simp add: fresh_scene_def)
  have "\<exists>sm'. register_all (\<lambda>_. Some rgb_image) ?reqs fresh_scene = Inr (True, sm')"
    by (simp add: CreateGLTexture_def CreateGLTexture_register_def Let_def split_beta
          rgb_image_def fresh_scene_def)
  then obtain sm' where run: "register_all (\<lambda>_. Some rgb_image) ?reqs fresh_scene = Inr (True, sm')"
    by blast
  note t = FindTextureSlot_registration_order [OF zero run]
  from t [of "''mug''"] t [of "''counter''"] t [of "''cuttingBoard''"] t [of "''plate''"]
  have "m_loadedTextures sm' = 3 \<and> FindTextureSlot sm' ''mug'' = Inr 0
        \<and> FindTextureSlot sm' ''counter'' = Inr 1
        \<and> FindTextureSlot sm' ''cuttingBoard'' = Inr 2
        \<and> FindTextureSlot sm' ''plate'' = Inr (- 1)"
    by (simp add: first_index_def)
  with zero run show ?thesis by blast
qed

text \<open>
  C7 (an image with a channel count other than 3 or 4 is refused and the registry is
  left as it was). When the decoder returns an image whose channel count is neither 3
  nor 4, \<open>CreateGLTexture\<close> returns \<open>false\<close>, and the loaded count and the slot array
  are unchanged.
\<close>

theorem CreateGLTexture_unsupported_channels:
  "stbi_load filename = Some img \<Longrightarrow> colorChannels img \<noteq> 3 \<Longrightarrow> colorChannels img \<noteq> 4 \<Longrightarrow>
   \<exists>sm'. CreateGLTexture stbi_load filename tg sm = Inr (False, sm')
     \<and> m_loadedTextures sm' = m_loadedTextures sm \<and> m_textureIDs sm' = m_textureIDs sm"
  by (simp add: CreateGLTexture_def Let_def split_beta)

theorem CreateGLTexture_unsupported_channels_witness:
  "(\<lambda>_. Some grey_image) ''grey.png'' = Some grey_image \<and> colorChannels grey_image = 1
   \<and> (\<exists>sm'. CreateGLTexture (\<lambda>_. Some grey_image) ''grey.png'' ''grey'' one_texture_scene
                = Inr (False, sm')
        \<and> m_loadedTextures sm' = 1
        \<and> m_textureIDs sm' = m_textureIDs one_texture_scene)"
  using CreateGLTexture_unsupported_channels
    [of "\<lambda>_. Some grey_image" "''grey.png''" grey_image "''grey''" one_texture_scene]
  by (simp add: grey_image_def one_texture_scene_def)

section \<open>Texture registry: teardown\<close>

text \<open>
  Whatever the state, the events of \<open>DestroyGLTextures\<close> are \<open>glGenTextures\<close> calls
  only, and every texture name alive before is alive after.
\<close>

lemma DestroyGLTextures_loop_only_generates:
  "DestroyGLTextures_loop i sm = Inr sm' \<Longrightarrow>
   \<exists>names. trace sm' = trace sm @ map glGenTextures names
     \<and> gl_textures sm' = gl_textures sm @ names"
proof (induction i sm rule: DestroyGLTextures_loop.induct)
  case (1 i sm)
  show ?case
  proof (cases "i < m_loadedTextures sm")
    case False
    with "1.prems" have "sm' = sm"
      by (simp add: DestroyGLTextures_loop.simps [of i sm])
    then show ?thesis by simp
  next
    case True
    with "1.prems" obtain entry where at: "array_at (m_textureIDs sm) i = Inr entry"
      and run: "DestroyGLTextures_loop (i + 1)
               ((snd (gl_GenTextures sm))
                  \<lparr>m_textureIDs := (m_textureIDs sm)[nat i := entry\<lparr>ID := fst (gl_GenTextures sm)\<rparr>]\<rparr>)
             = Inr sm'"
      by (subst (asm) DestroyGLTextures_loop.simps) (auto split: sum.splits)
    from "1.IH" [OF True at run] obtain names where
      "trace sm' = trace sm @ glGenTextures (unused_texture_name (gl_textures sm)) # map glGenTextures names"
      "gl_textures sm' = gl_textures sm @ unused_texture_name (gl_textures sm) # names"
      by auto
    then have "trace sm' = trace sm @ map glGenTextures (unused_texture_name (gl_textures sm) # names)
      \<and> gl_textures sm' = gl_textures sm @ (unused_texture_name (gl_textures sm) # names)"
      by simp
    then show ?thesis by blast
  qed
qed

lemma DestroyGLTextures_only_generates:
  "DestroyGLTextures sm = Inr sm' \<Longrightarrow>
   \<exists>names. trace sm' = trace sm @ map glGenTextures names
     \<and> gl_textures sm' = gl_textures sm @ names"
  unfolding DestroyGLTextures_def by (rule DestroyGLTextures_loop_only_generates)

text \<open>
  C3 (teardown issues one delete per registered texture and leaves no handle alive).
  With one texture registered under the name 1, \<open>DestroyGLTextures\<close> issues a single
  event, \<open>glGenTextures\<close>, which allocates the name 2 and stores it over the entry's
  \<open>ID\<close>. No delete is issued, the name 1 stays alive, and so does the new name 2.
\<close>

theorem DestroyGLTextures_generates_instead_of_deleting:
  "DestroyGLTextures one_texture_scene =
     Inr (one_texture_scene
       \<lparr>m_textureIDs := (m_textureIDs one_texture_scene)[0 := \<lparr>ID = 2, tag = ''mug''\<rparr>],
        gl_textures := [1, 2], trace := [glGenTextures 2]\<rparr>)"
  by (simp add: DestroyGLTextures_def DestroyGLTextures_loop.simps [of 0]
        DestroyGLTextures_loop.simps [of 1] one_texture_scene_def fresh_scene_def array_at_def
        gl_GenTextures_def unused_texture_name_def emit_def Let_def numeral_2_eq_2)

section \<open>Transform composer\<close>

text \<open>
  A call without rotation, which is how \<open>DrawGrapes\<close> calls: the matrix pushed has
  the scale on the diagonal and the position in the last column. No operation of this
  computation rounds in float arithmetic.
\<close>

lemma SetTransformations_unrotated:
  "m_pShaderManager sm = Some sh \<Longrightarrow>
   SetTransformations sm (sx, sy, sz) 0 0 0 (x, y, z) =
     Inr (sm\<lparr>m_pShaderManager :=
              Some (set_uniform ''model''
                (UMat4 ((sx, 0, 0, 0), (0, sy, 0, 0), (0, 0, sz, 0), (x, y, z, 1))) sh),
            trace := trace sm
              @ [setMat4Value ''model'' ((sx, 0, 0, 0), (0, sy, 0, 0), (0, 0, sz, 0), (x, y, z, 1))]\<rparr>)"
  by (simp add: SetTransformations_def call_shader_def glm_radians_def glm_rotate_def
        mat4_identity_def g_ModelName_def Let_def)

section \<open>Shader state pusher\<close>

lemma SetShaderColor_Some:
  "m_pShaderManager sm = Some sh \<Longrightarrow>
   SetShaderColor sm r g b a =
     Inr (sm\<lparr>m_pShaderManager :=
              Some (set_uniform ''objectColor'' (UVec4 (r, g, b, a))
                     (set_uniform ''bUseTexture'' (UInt 0) sh)),
            trace := trace sm @ [setIntValue ''bUseTexture'' 0, setVec4Value ''objectColor'' (r, g, b, a)]\<rparr>)"
  by (simp add: SetShaderColor_def call_shader_def g_UseTextureName_def g_ColorValueName_def
        Let_def)

lemma null_shader_no_op:
  assumes "m_pShaderManager sm = None"
  shows "SetTransformations sm s rx ry rz p = Inr sm" "SetShaderColor sm r g b a = Inr sm"
    "SetShaderTexture sm t = Inr sm" "SetTextureUVScale sm u v = Inr sm"
  using assms
  by (simp_all add: SetTransformations_def SetShaderColor_def SetShaderTexture_def
        SetTextureUVScale_def Let_def)

text \<open>
  C4 (a flat colour switches texturing off, whatever the shader state before). For
  every colour and every state \<open>sh\<close> of the shader, among them the one
  \<open>SetShaderTexture\<close> leaves, \<open>SetShaderColor\<close> returns with the uniform
  \<open>bUseTexture\<close> holding 0 (false) and \<open>objectColor\<close> holding the colour; the two
  writes that do so are the only events it issues.
\<close>

theorem SetShaderColor_clears_use_texture:
  "m_pShaderManager sm = Some sh \<Longrightarrow>
   \<exists>sm'. SetShaderColor sm r g b a = Inr sm'
     \<and> uniform_of sm' ''bUseTexture'' = Some (UInt 0)
     \<and> uniform_of sm' ''objectColor'' = Some (UVec4 (r, g, b, a))
     \<and> trace sm' = trace sm
          @ [setIntValue ''bUseTexture'' 0, setVec4Value ''objectColor'' (r, g, b, a)]"
  by (simp add: SetShaderColor_Some uniform_of_def set_uniform_def)

theorem SetShaderColor_clears_use_texture_witness:
  "SetShaderTexture one_texture_scene ''mug'' = Inr textured_scene
   \<and> uniform_of textured_scene ''bUseTexture'' = Some (UInt 1)
   \<and> (\<exists>sm'. SetShaderColor textured_scene 1 0 0 1 = Inr sm'
        \<and> uniform_of sm' ''bUseTexture'' = Some (UInt 0)
        \<and> uniform_of sm' ''objectColor'' = Some (UVec4 (1, 0, 0, 1)))"
proof -
  have "SetShaderTexture one_texture_scene ''mug'' = Inr textured_scene"
    by (simp add: SetShaderTexture_def FindTextureSlot_def FindTextureSlot_loop.simps [of _ _ 0]
          one_texture_scene_def fresh_scene_def textured_scene_def call_shader_def array_at_def
          set_uniform_def g_UseTextureName_def g_TextureValueName_def)
  moreover have "uniform_of textured_scene ''bUseTexture'' = Some (UInt 1)"
    by (simp add: textured_scene_def uniform_of_def)
  moreover have "m_pShaderManager textured_scene =
      Some \<lparr>uniforms = [''bUseTexture'' \<mapsto> UInt 1, ''objectTexture'' \<mapsto> UInt 0]\<rparr>"
    by (simp add: textured_scene_def)
  ultimately show ?thesis
    using SetShaderColor_clears_use_texture [of textured_scene _ 1 0 0 1] by auto
qed

text \<open>
  C10 (with a null shader manager the four guarded operations write no uniform). When
  \<open>m_pShaderManager\<close> is null, \<open>SetTransformations\<close>, \<open>SetShaderColor\<close>,
  \<open>SetShaderTexture\<close> and \<open>SetTextureUVScale\<close> each return normally and leave the
  whole state as it was: no event is issued, so no uniform is written.
\<close>

theorem null_shader_manager_writes_nothing:
  "m_pShaderManager sm = None \<Longrightarrow>
   SetTransformations sm scaleXYZ xDegrees yDegrees zDegrees positionXYZ = Inr sm
   \<and> SetShaderColor sm r g b a = Inr sm
   \<and> SetShaderTexture sm textureTag = Inr sm
   \<and> SetTextureUVScale sm u v = Inr sm"
  by (simp add: null_shader_no_op)

theorem null_shader_manager_writes_nothing_witness:
  "m_pShaderManager null_shader_scene = None
   \<and> SetTransformations null_shader_scene (2, 1, 1) 0 90 0 (1, 0, 0) = Inr null_shader_scene
   \<and> SetShaderColor null_shader_scene 1 0 0 1 = Inr null_shader_scene
   \<and> SetShaderTexture null_shader_scene ''mug'' = Inr null_shader_scene
   \<and> SetTextureUVScale null_shader_scene 5 1 = Inr null_shader_scene
   \<and> trace null_shader_scene = []"
proof -
  have n: "m_pShaderManager null_shader_scene = None"
    by (simp add: null_shader_scene_def)
  show ?thesis
    using null_shader_manager_writes_nothing [OF n, of "(2, 1, 1)" 0 90 0 "(1, 0, 0)" 1 0 0 1 "''mug''" 5 1]
    by (simp add: n null_shader_scene_def fresh_scene_def)
qed

section \<open>Scene composer: the grapes\<close>

text \<open>One iteration of the loop, with a shader and without.\<close>

lemma grape_step_Some:
  assumes "m_pShaderManager sm = Some sh"
  shows "then_do (SetTransformations sm (s, s, s) 0 0 0 (x, y, z))
            (\<lambda>sm. then_do (SetShaderColor sm r g b a) (\<lambda>sm. f (emit (DrawMesh SphereMesh) sm)))
          = f (sm\<lparr>m_pShaderManager :=
                   Some (set_uniform ''objectColor'' (UVec4 (r, g, b, a))
                     (set_uniform ''bUseTexture'' (UInt 0)
                       (set_uniform ''model''
                         (UMat4 ((s, 0, 0, 0), (0, s, 0, 0), (0, 0, s, 0), (x, y, z, 1))) sh))),
                 trace := trace sm @
                   [setMat4Value ''model'' ((s, 0, 0, 0), (0, s, 0, 0), (0, 0, s, 0), (x, y, z, 1)),
                    setIntValue ''bUseTexture'' 0, setVec4Value ''objectColor'' (r, g, b, a),
                    DrawMesh SphereMesh]\<rparr>)"
  using assms
  by (simp add: SetTransformations_unrotated SetShaderColor_Some emit_def)

lemma grape_step_None:
  assumes "m_pShaderManager sm = None"
  shows "then_do (SetTransformations sm sc rx ry rz p)
            (\<lambda>sm. then_do (SetShaderColor sm r g b a) (\<lambda>sm. f (emit (DrawMesh SphereMesh) sm)))
          = f (emit (DrawMesh SphereMesh) sm)"
  using assms by (simp add: null_shader_no_op)

lemma DrawGrapes_loop_Some:
  "i \<le> 6 \<Longrightarrow> m_pShaderManager sm \<noteq> None \<Longrightarrow>
   \<exists>sm'. DrawGrapes_loop i sm = Inr sm'
     \<and> trace sm' = trace sm @ concat (map grape_iteration [i..<6])"
proof (induction "6 - i" arbitrary: i sm)
  case 0
  then show ?case by (subst DrawGrapes_loop.simps) simp
next
  case (Suc n)
  then have lt: "i < 6" by simp
  obtain x y z where p: "grapePositions ! i = (x, y, z)" by (cases "grapePositions ! i")
  from Suc.prems obtain sh where sh: "m_pShaderManager sm = Some sh" by auto
  define sm1 where "sm1 = sm\<lparr>m_pShaderManager :=
      Some (set_uniform ''objectColor'' (UVec4 (0.5, 0, 0.5, 1))
        (set_uniform ''bUseTexture'' (UInt 0)
          (set_uniform ''model''
            (UMat4 ((grapeSizes ! i, 0, 0, 0), (0, grapeSizes ! i, 0, 0),
                    (0, 0, grapeSizes ! i, 0), (x, y, z, 1))) sh))),
      trace := trace sm @ grape_iteration i\<rparr>"
  have step: "DrawGrapes_loop i sm = DrawGrapes_loop (i + 1) sm1"
    using lt
    by (subst DrawGrapes_loop.simps)
       (simp add: Let_def p grape_step_Some [OF sh] sm1_def grape_iteration_def)
  have "i + 1 \<le> 6" "n = 6 - (i + 1)" "m_pShaderManager sm1 \<noteq> None"
    using lt Suc.hyps(2) by (simp_all add: sm1_def)
  from Suc.hyps(1) [OF this(2) this(1) this(3)]
  obtain sm' where "DrawGrapes_loop (i + 1) sm1 = Inr sm'"
    "trace sm' = trace sm1 @ concat (map grape_iteration [i + 1..<6])"
    by auto
  with step lt show ?case
    by (simp add: upt_conv_Cons sm1_def)
qed

lemma DrawGrapes_loop_None:
  "i \<le> 6 \<Longrightarrow> m_pShaderManager sm = None \<Longrightarrow>
   DrawGrapes_loop i sm = Inr (sm\<lparr>trace := trace sm @ replicate (6 - i) (DrawMesh SphereMesh)\<rparr>)"
proof (induction "6 - i" arbitrary: i sm)
  case 0
  then show ?case by (subst DrawGrapes_loop.simps) simp
next
  case (Suc n)
  then have lt: "i < 6" by simp
  have step: "DrawGrapes_loop i sm = DrawGrapes_loop (i + 1) (emit (DrawMesh SphereMesh) sm)"
    using lt Suc.prems(2)
    by (subst DrawGrapes_loop.simps) (simp add: Let_def grape_step_None)
  have "n = 6 - (i + 1)" "i + 1 \<le> 6" "m_pShaderManager (emit (DrawMesh SphereMesh) sm) = None"
    using lt Suc.hyps(2) Suc.prems(2) by simp_all
  from Suc.hyps(1) [OF this]
  have rest: "DrawGrapes_loop (i + 1) (emit (DrawMesh SphereMesh) sm) =
      Inr (sm\<lparr>trace := trace sm @ DrawMesh SphereMesh # replicate (6 - (i + 1)) (DrawMesh SphereMesh)\<rparr>)"
    by (simp add: emit_def)
  have "6 - i = Suc (6 - (i + 1))"
    using lt by simp
  then have "replicate (6 - i) (DrawMesh SphereMesh) =
      DrawMesh SphereMesh # replicate (6 - (i + 1)) (DrawMesh SphereMesh)"
    by (simp only: replicate_Suc)
  with step rest show ?case
    by simp
qed

text \<open>
  C9, as stated (each of the six draws is immediately preceded by a transform push),
  fails on the code. Built on the null pointer, the scene's \<open>DrawGrapes\<close> issues the
  six sphere draws and nothing else, so no transform push precedes any of them. With
  a shader, the event directly before each draw is the colour write of
  \<open>SetShaderColor\<close>, which stands between the transform push and the draw.
\<close>

theorem DrawGrapes_draw_without_preceding_push:
  "DrawGrapes null_shader_scene =
     Inr (null_shader_scene\<lparr>trace := replicate 6 (DrawMesh SphereMesh)\<rparr>)
   \<and> \<not> draws_follow_push None (replicate 6 (DrawMesh SphereMesh))
   \<and> (\<exists>sm'. DrawGrapes fresh_scene = Inr sm' \<and> \<not> draws_follow_push None (trace sm'))"
proof -
  have n: "m_pShaderManager null_shader_scene = None" "trace null_shader_scene = []"
    by (simp_all add: null_shader_scene_def fresh_scene_def)
  have "DrawGrapes null_shader_scene =
     Inr (null_shader_scene\<lparr>trace := replicate 6 (DrawMesh SphereMesh)\<rparr>)"
    using DrawGrapes_loop_None [of 0 null_shader_scene] n by (simp add: DrawGrapes_def)
  moreover have "\<not> draws_follow_push None (replicate 6 (DrawMesh SphereMesh))"
    by (simp add: replicate_6)
  moreover have "\<exists>sm'. DrawGrapes fresh_scene = Inr sm' \<and> \<not> draws_follow_push None (trace sm')"
  proof -
    have "m_pShaderManager fresh_scene \<noteq> None" "trace fresh_scene = []"
      by (simp_all add: fresh_scene_def)
    with DrawGrapes_loop_Some [of 0 fresh_scene] obtain sm' where
      "DrawGrapes fresh_scene = Inr sm'" "trace sm' = concat (map grape_iteration [0..<6])"
      by (auto simp: DrawGrapes_def)
    moreover have "\<not> draws_follow_push None (concat (map grape_iteration [0..<6]))"
      by (simp add: upt_0_6 grape_iteration_def grapePositions_def)
    ultimately show ?thesis by auto
  qed
  ultimately show ?thesis by blast
qed

lemma grape_iterations_draws:
  "filter is_draw (concat (map grape_iteration [0..<6])) = replicate 6 (DrawMesh SphereMesh)"
  by (simp add: upt_0_6 replicate_6 grape_iteration_def split: prod.split)

text \<open>
  C9, amended. \<open>DrawGrapes\<close> always returns normally, and the draws it issues are
  exactly six sphere draws. With a shader manager it issues, for \<open>i\<close> from 0 to 5 in
  this order, the four events of \<open>grape_iteration i\<close>: the transform push whose matrix
  carries the \<open>i\<close>-th position and the \<open>i\<close>-th size as the scale of all three axes,
  the two writes of the flat colour, and the sphere draw; so each draw is preceded in
  its iteration by its own transform push, with the colour push in between. On the null
  pointer it issues the six sphere draws only.
\<close>

theorem DrawGrapes_events:
  "\<exists>sm'. DrawGrapes sm = Inr sm'
     \<and> trace sm' = trace sm @
         (if m_pShaderManager sm = None then replicate 6 (DrawMesh SphereMesh)
          else concat (map grape_iteration [0..<6]))
     \<and> filter is_draw (drop (length (trace sm)) (trace sm')) = replicate 6 (DrawMesh SphereMesh)"
proof (cases "m_pShaderManager sm = None")
  case True
  then show ?thesis by (simp add: DrawGrapes_def DrawGrapes_loop_None)
next
  case False
  with DrawGrapes_loop_Some [of 0 sm] obtain sm' where
    "DrawGrapes_loop 0 sm = Inr sm'" "trace sm' = trace sm @ concat (map grape_iteration [0..<6])"
    by auto
  with False show ?thesis by (auto simp: DrawGrapes_def grape_iterations_draws)
qed

theorem DrawGrapes_events_witness:
  "(\<exists>sm'. DrawGrapes fresh_scene = Inr sm'
      \<and> length (trace sm') = 24
      \<and> filter is_draw (trace sm') = replicate 6 (DrawMesh SphereMesh)
      \<and> take 4 (trace sm') =
          [setMat4Value ''model'' ((0.2, 0, 0, 0), (0, 0.2, 0, 0), (0, 0, 0.2, 0), (- 3, 0.4, 7.5, 1)),
           setIntValue ''bUseTexture'' 0, setVec4Value ''objectColor'' (0.5, 0, 0.5, 1),
           DrawMesh SphereMesh]
      \<and> drop 20 (trace sm') =
          [setMat4Value ''model'' ((0.17, 0, 0, 0), (0, 0.17, 0, 0), (0, 0, 0.17, 0), (- 2.6, 0.38, 6.4, 1)),
           setIntValue ''bUseTexture'' 0, setVec4Value ''objectColor'' (0.5, 0, 0.5, 1),
           DrawMesh SphereMesh])
   \<and> (\<exists>sm'. DrawGrapes null_shader_scene = Inr sm'
        \<and> trace sm' = replicate 6 (DrawMesh SphereMesh))"
  using DrawGrapes_events [of fresh_scene] DrawGrapes_events [of null_shader_scene]
  by (auto simp: fresh_scene_def null_shader_scene_def upt_0_6 replicate_6 grape_iteration_def
        grapePositions_def grapeSizes_def)

end
